theory Spec2Isabelle
  imports Complex_Main "HOL-Library.Word"
begin

text \<open>
  The repository holds three versions of one browser script. \<^verbatim>\<open>src/js/script.js\<close> and
  \<^verbatim>\<open>src/unnamed/part_000\<close> are the same program, comments apart: a query builder, the
  function \<^verbatim>\<open>fetchGifs\<close> and a click handler that renders the images or an error
  notice. \<^verbatim>\<open>src/unnamed/part_001\<close>, the third script below, is a shorter handler that
  searches tags, alerts on an empty term, checks no status, applies no filter and only logs
  its errors.
\<close>

section \<open>JavaScript strings\<close>

text \<open>
  A JavaScript string is a sequence of UTF-16 code units. The literals of the scripts are
  ASCII, so they are written as HOL strings and injected with \<open>js\<close>.
\<close>

type_synonym code_unit = "16 word"
type_synonym jsstring = "code_unit list"

definition js :: "string \<Rightarrow> jsstring" where
  "js s = map of_char s"

text \<open>
  \<^verbatim>\<open>String.prototype.trim\<close> removes, at both ends, the code units that ECMAScript calls
  WhiteSpace or LineTerminator.
\<close>

definition is_space :: "code_unit \<Rightarrow> bool" where
  "is_space c \<longleftrightarrow>
     c \<in> set [0x0009, 0x000A, 0x000B, 0x000C, 0x000D, 0x0020, 0x00A0, 0x1680,
              0x2000, 0x2001, 0x2002, 0x2003, 0x2004, 0x2005, 0x2006, 0x2007,
              0x2008, 0x2009, 0x200A, 0x2028, 0x2029, 0x202F, 0x205F, 0x3000, 0xFEFF]"

definition trim :: "jsstring \<Rightarrow> jsstring" where
  "trim s = rev (dropWhile is_space (rev (dropWhile is_space s)))"

text \<open>Decimal digits of a non-negative integer, as a template literal prints it.\<close>

fun decimal :: "nat \<Rightarrow> jsstring" where
  "decimal n =
     (if n < 10 then [of_nat (48 + n)]
      else decimal (n div 10) @ [of_nat (48 + n mod 10)])"

declare decimal.simps [simp del]

section \<open>Errors\<close>

text \<open>
  The exceptions the scripts can meet: the rejection of \<^verbatim>\<open>fetch\<close>, the
  \<^verbatim>\<open>new Error(`HTTP ${res.status}`)\<close> of \<^verbatim>\<open>fetchGifs\<close> with its message, the
  rejection of \<^verbatim>\<open>res.json()\<close>, and the TypeError and URIError of the language itself.
\<close>

datatype js_error =
    NetworkError
  | Error jsstring
  | SyntaxError
  | TypeError
  | URIError

section \<open>\<^verbatim>\<open>encodeURIComponent\<close>\<close>

text \<open>
  ECMAScript's \<^verbatim>\<open>Encode\<close> with the unreserved set of \<^verbatim>\<open>encodeURIComponent\<close>:
  letters, digits and \<^verbatim>\<open>- _ . ! ~ * ' ( )\<close> are copied, every other code point is
  written as the \<^verbatim>\<open>%XX\<close> of its UTF-8 octets, and an unpaired surrogate raises URIError.
\<close>

definition uri_unescaped :: "code_unit \<Rightarrow> bool" where
  "uri_unescaped c \<longleftrightarrow>
     c \<in> set (js ''ABCDEFGHIJKLMNOPQRSTUVWXYZabcdefghijklmnopqrstuvwxyz0123456789-_.!~*()'')
     \<or> c = 0x27"

definition is_lead :: "code_unit \<Rightarrow> bool" where
  "is_lead c \<longleftrightarrow> 0xD800 \<le> c \<and> c \<le> 0xDBFF"

definition is_trail :: "code_unit \<Rightarrow> bool" where
  "is_trail c \<longleftrightarrow> 0xDC00 \<le> c \<and> c \<le> 0xDFFF"

definition utf8 :: "nat \<Rightarrow> nat list" where
  "utf8 cp =
     (if cp < 0x80 then [cp]
      else if cp < 0x800 then [0xC0 + cp div 0x40, 0x80 + cp mod 0x40]
      else if cp < 0x10000 then
        [0xE0 + cp div 0x1000, 0x80 + cp div 0x40 mod 0x40, 0x80 + cp mod 0x40]
      else
        [0xF0 + cp div 0x40000, 0x80 + cp div 0x1000 mod 0x40,
         0x80 + cp div 0x40 mod 0x40, 0x80 + cp mod 0x40])"

definition hex_digit :: "nat \<Rightarrow> code_unit" where
  "hex_digit d = (if d < 10 then of_nat (48 + d) else of_nat (55 + d))"

definition percent :: "nat \<Rightarrow> jsstring" where
  "percent octet = [0x25, hex_digit (octet div 16), hex_digit (octet mod 16)]"

definition escape :: "nat \<Rightarrow> jsstring" where
  "escape cp = concat (map percent (utf8 cp))"

definition pair_point :: "code_unit \<Rightarrow> code_unit \<Rightarrow> nat" where
  "pair_point hi lo = (unat hi - 0xD800) * 0x400 + (unat lo - 0xDC00) + 0x10000"

definition emit :: "jsstring \<Rightarrow> js_error + jsstring \<Rightarrow> js_error + jsstring" where
  "emit r rest = (case rest of Inl e \<Rightarrow> Inl e | Inr t \<Rightarrow> Inr (r @ t))"

fun encodeURIComponent :: "jsstring \<Rightarrow> js_error + jsstring" where
  "encodeURIComponent [] = Inr []"
| "encodeURIComponent (c # cs) =
     (if uri_unescaped c then emit [c] (encodeURIComponent cs)
      else if \<not> is_lead c \<and> \<not> is_trail c then emit (escape (unat c)) (encodeURIComponent cs)
      else if is_trail c then Inl URIError
      else (case cs of
              [] \<Rightarrow> Inl URIError
            | d # ds \<Rightarrow>
                if is_trail d then emit (escape (pair_point c d)) (encodeURIComponent ds)
                else Inl URIError))"

section \<open>The Query Builder\<close>

text \<open>The configuration constants of \<^verbatim>\<open>script.js\<close> (the same in the second copy of it).\<close>

definition API_KEY :: jsstring where
  "API_KEY = js ''kRB3yQVxhHG7HfBAwbWk1eFfBTpMHdP3''"

definition LIMIT :: nat where
  "LIMIT = 25"

definition RATING :: jsstring where
  "RATING = js ''g''"

definition LANG :: jsstring where
  "LANG = js ''en''"

definition DEFAULT_QUERY :: jsstring where
  "DEFAULT_QUERY = js ''cats''"

text \<open>
  The template expression that occurs twice in \<^verbatim>\<open>script.js\<close>: once for the constant
  \<^verbatim>\<open>endpoint\<close>, with \<^verbatim>\<open>DEFAULT_QUERY\<close>, and once in the click handler, with the term.
\<close>

definition search_url :: "jsstring \<Rightarrow> js_error + jsstring" where
  "search_url term =
     (case encodeURIComponent term of
        Inl e \<Rightarrow> Inl e
      | Inr q \<Rightarrow>
          Inr (js ''https://api.giphy.com/v1/gifs/search'' @
               js ''?api_key='' @ API_KEY @
               js ''&q='' @ q @
               js ''&limit='' @ decimal LIMIT @
               js ''&offset=0'' @
               js ''&rating='' @ RATING @
               js ''&lang='' @ LANG @
               js ''&bundle=messaging_non_clips''))"

definition endpoint :: "js_error + jsstring" where
  "endpoint = search_url DEFAULT_QUERY"

text \<open>The handler's \<^verbatim>\<open>term ? (...) : endpoint\<close>; a non-empty string is truthy.\<close>

definition choose_url :: "jsstring \<Rightarrow> js_error + jsstring" where
  "choose_url term = (if term \<noteq> [] then search_url term else endpoint)"

text \<open>The text of \<^verbatim>\<open>endpoint\<close>, written out.\<close>

definition default_url :: jsstring where
  "default_url =
     js ''https://api.giphy.com/v1/gifs/search?api_key=kRB3yQVxhHG7HfBAwbWk1eFfBTpMHdP3&q=cats&limit=25&offset=0&rating=g&lang=en&bundle=messaging_non_clips''"

text \<open>The third script builds its URL from the trimmed term as it is.\<close>

definition tags_endpoint :: "jsstring \<Rightarrow> jsstring" where
  "tags_endpoint searchTerm =
     js ''https://api.giphy.com/v1/gifs/search/tags?api_key=kRB3yQVxhHG7HfBAwbWk1eFfBTpMHdP3&q='' @
     searchTerm @ js ''&limit=25&offset=0''"

section \<open>Decoded response bodies\<close>

text \<open>
  The value that \<^verbatim>\<open>res.json()\<close> resolves to. An object is the list of its own
  properties, each name once; \<open>None\<close> stands for \<^verbatim>\<open>undefined\<close>, which no decoded
  body contains but which a property access can yield.
\<close>

datatype json =
    JNull
  | JBool bool
  | JNum rat
  | JStr jsstring
  | JArr "json list"
  | JObj "(jsstring \<times> json) list"

type_synonym jsval = "json option"

text \<open>
  Reading a property of a value that is neither \<^verbatim>\<open>null\<close> nor \<^verbatim>\<open>undefined\<close>. The
  scripts read only \<^verbatim>\<open>data\<close>, \<^verbatim>\<open>images\<close>, \<^verbatim>\<open>original\<close> and \<^verbatim>\<open>url\<close>, which no
  built-in prototype defines, so only an object with such a property of its own has one.
\<close>

definition own_prop :: "json \<Rightarrow> jsstring \<Rightarrow> jsval" where
  "own_prop v k = (case v of JObj kvs \<Rightarrow> map_of kvs k | _ \<Rightarrow> None)"

text \<open>\<^verbatim>\<open>v.k\<close> raises TypeError on \<^verbatim>\<open>null\<close> and \<^verbatim>\<open>undefined\<close>; \<^verbatim>\<open>v?.k\<close> yields \<^verbatim>\<open>undefined\<close>.\<close>

definition get_member :: "jsval \<Rightarrow> jsstring \<Rightarrow> js_error + jsval" where
  "get_member v k =
     (case v of None \<Rightarrow> Inl TypeError | Some JNull \<Rightarrow> Inl TypeError | Some j \<Rightarrow> Inr (own_prop j k))"

definition opt_member :: "jsval \<Rightarrow> jsstring \<Rightarrow> jsval" where
  "opt_member v k = (case v of None \<Rightarrow> None | Some JNull \<Rightarrow> None | Some j \<Rightarrow> own_prop j k)"

definition then_member :: "js_error + jsval \<Rightarrow> jsstring \<Rightarrow> js_error + jsval" where
  "then_member r k = (case r of Inl e \<Rightarrow> Inl e | Inr v \<Rightarrow> get_member v k)"

fun truthy :: "jsval \<Rightarrow> bool" where
  "truthy None = False"
| "truthy (Some JNull) = False"
| "truthy (Some (JBool b)) = b"
| "truthy (Some (JNum n)) = (n \<noteq> 0)"
| "truthy (Some (JStr s)) = (s \<noteq> [])"
| "truthy (Some (JArr xs)) = True"
| "truthy (Some (JObj kvs)) = True"

text \<open>
  The conversion to a string that a template literal applies. The text of a number is a
  parameter. An array joins its elements with commas, \<^verbatim>\<open>null\<close> elements as the empty
  string; a plain object prints as \<^verbatim>\<open>[object Object]\<close>, unless it has a property
  \<^verbatim>\<open>toString\<close> of its own: a decoded body holds no function, the inherited
  \<^verbatim>\<open>valueOf\<close> returns the object itself, and the conversion raises TypeError.
\<close>

fun to_string :: "(rat \<Rightarrow> jsstring) \<Rightarrow> json \<Rightarrow> js_error + jsstring"
  and join_elements :: "(rat \<Rightarrow> jsstring) \<Rightarrow> json list \<Rightarrow> js_error + jsstring" where
  "to_string nt JNull = Inr (js ''null'')"
| "to_string nt (JBool b) = Inr (if b then js ''true'' else js ''false'')"
| "to_string nt (JNum n) = Inr (nt n)"
| "to_string nt (JStr s) = Inr s"
| "to_string nt (JArr xs) = join_elements nt xs"
| "to_string nt (JObj kvs) =
     (if js ''toString'' \<in> fst ` set kvs then Inl TypeError else Inr (js ''[object Object]''))"
| "join_elements nt [] = Inr []"
| "join_elements nt (x # xs) =
     (case (if x = JNull then Inr [] else to_string nt x) of
        Inl e \<Rightarrow> Inl e
      | Inr s \<Rightarrow> if xs = [] then Inr s else emit (s @ js '','') (join_elements nt xs))"

definition template_value :: "(rat \<Rightarrow> jsstring) \<Rightarrow> jsval \<Rightarrow> js_error + jsstring" where
  "template_value nt v = (case v of None \<Rightarrow> Inr (js ''undefined'') | Some j \<Rightarrow> to_string nt j)"

section \<open>The page and the browser\<close>

text \<open>
  What a click can read and change: the value of the search input, the markup of the
  display region with the sequence of writes made to it, the console, the alerts shown and
  the requests issued. The markup is the string the script assigns; how the browser parses
  it is not part of the scripts.
\<close>

datatype dom_write = Assign jsstring | Append jsstring

datatype console_entry =
    LogImages "jsval list"
  | LogText jsstring
  | LogError js_error

record page =
  input_value :: jsstring
  innerHTML :: jsstring
  writes :: "dom_write list"
  console :: "console_entry list"
  alerts :: "jsstring list"
  requests :: "jsstring list"

definition set_html :: "jsstring \<Rightarrow> page \<Rightarrow> page" where
  "set_html s st = st\<lparr>innerHTML := s, writes := writes st @ [Assign s]\<rparr>"

definition append_html :: "jsstring \<Rightarrow> page \<Rightarrow> page" where
  "append_html s st = st\<lparr>innerHTML := innerHTML st @ s, writes := writes st @ [Append s]\<rparr>"

definition console_log :: "console_entry \<Rightarrow> page \<Rightarrow> page" where
  "console_log entry st = st\<lparr>console := console st @ [entry]\<rparr>"

text \<open>
  A response has a status and a body that \<^verbatim>\<open>json()\<close> decodes or rejects;
  \<^verbatim>\<open>res.ok\<close> is a status from 200 to 299. The network answers a URL with a rejection
  or a response.
\<close>

record response =
  status :: nat
  body :: "js_error + json"

definition ok :: "response \<Rightarrow> bool" where
  "ok res \<longleftrightarrow> 200 \<le> status res \<and> status res \<le> 299"

record browser =
  fetch :: "jsstring \<Rightarrow> js_error + response"
  number_text :: "rat \<Rightarrow> jsstring"

section \<open>\<^verbatim>\<open>fetchGifs\<close> and the click handler of \<^verbatim>\<open>script.js\<close>\<close>

definition has_original_url :: "json \<Rightarrow> bool" where
  "has_original_url item =
     truthy (opt_member (opt_member (opt_member (Some item) (js ''images'')) (js ''original''))
               (js ''url''))"

definition original_url :: "json \<Rightarrow> js_error + jsval" where
  "original_url item =
     then_member (then_member (get_member (Some item) (js ''images'')) (js ''original'')) (js ''url'')"

text \<open>\<^verbatim>\<open>Array.prototype.map\<close> with a callback that may raise: the first exception ends it.\<close>

fun map_throwing :: "('a \<Rightarrow> js_error + 'b) \<Rightarrow> 'a list \<Rightarrow> js_error + 'b list" where
  "map_throwing f [] = Inr []"
| "map_throwing f (x # xs) =
     (case f x of
        Inl e \<Rightarrow> Inl e
      | Inr y \<Rightarrow> (case map_throwing f xs of Inl e \<Rightarrow> Inl e | Inr ys \<Rightarrow> Inr (y # ys)))"

text \<open>
  \<^verbatim>\<open>data.data.filter(...).map(...)\<close>: a body that is \<^verbatim>\<open>null\<close>, or whose \<^verbatim>\<open>data\<close> is
  missing or not an array, has no \<^verbatim>\<open>filter\<close> to call.
\<close>

definition extract_images :: "json \<Rightarrow> js_error + jsval list" where
  "extract_images data =
     (case get_member (Some data) (js ''data'') of
        Inl e \<Rightarrow> Inl e
      | Inr (Some (JArr items)) \<Rightarrow> map_throwing original_url (filter has_original_url items)
      | Inr _ \<Rightarrow> Inl TypeError)"

definition fetchGifs :: "browser \<Rightarrow> jsstring \<Rightarrow> page \<Rightarrow> (js_error + jsval list) \<times> page" where
  "fetchGifs b url st =
     (let st1 = st\<lparr>requests := requests st @ [url]\<rparr> in
      case fetch b url of
        Inl e \<Rightarrow> (Inl e, st1)
      | Inr res \<Rightarrow>
          if \<not> ok res then (Inl (Error (js ''HTTP '' @ decimal (status res))), st1)
          else (case body res of
                  Inl e \<Rightarrow> (Inl e, st1)
                | Inr data \<Rightarrow>
                    (case extract_images data of
                       Inl e \<Rightarrow> (Inl e, st1)
                     | Inr images \<Rightarrow> (Inr images, console_log (LogImages images) st1))))"

definition image_card :: "jsstring \<Rightarrow> jsstring" where
  \<open>image_card src =
     [0x0A] @ js ''        <div class="col-6 col-md-3">'' @
     [0x0A] @ js ''          <img src="'' @ src @ js ''" class="img-fluid" alt="GIF">'' @
     [0x0A] @ js ''        </div>''\<close>

definition error_notice :: jsstring where
  \<open>error_notice =
     [0x0A] @ js ''      <div class="col-12">'' @
     [0x0A] @ js ''        <div class="alert alert-danger" role="alert">'' @
     [0x0A] @ js ''          Failed to fetch GIFs. Check the console for details.'' @
     [0x0A] @ js ''        </div>'' @
     [0x0A] @ js ''      </div>''\<close>

text \<open>The \<^verbatim>\<open>for\<close> loop; an exception of the template leaves what was appended so far.\<close>

fun append_cards :: "browser \<Rightarrow> jsval list \<Rightarrow> page \<Rightarrow> js_error option \<times> page" where
  "append_cards b [] st = (None, st)"
| "append_cards b (src # rest) st =
     (case template_value (number_text b) src of
        Inl e \<Rightarrow> (Some e, st)
      | Inr s \<Rightarrow> append_cards b rest (append_html (image_card s) st))"

text \<open>The \<^verbatim>\<open>catch\<close> block.\<close>

definition show_error :: "js_error \<Rightarrow> page \<Rightarrow> page" where
  "show_error err st = set_html error_notice (console_log (LogError err) st)"

text \<open>The \<^verbatim>\<open>try\<close> statement of the handler, for the URL it is given.\<close>

definition run_pipeline :: "browser \<Rightarrow> jsstring \<Rightarrow> page \<Rightarrow> page" where
  "run_pipeline b url st =
     (case fetchGifs b url st of
        (Inl err, st1) \<Rightarrow> show_error err st1
      | (Inr images, st1) \<Rightarrow>
          (case append_cards b images (set_html [] st1) of
             (Some err, st2) \<Rightarrow> show_error err st2
           | (None, st2) \<Rightarrow> st2))"

text \<open>
  The handler builds the URL before the \<^verbatim>\<open>try\<close>, so an exception of
  \<^verbatim>\<open>encodeURIComponent\<close> leaves the handler and the page is not touched.
\<close>

definition click_handler :: "browser \<Rightarrow> page \<Rightarrow> js_error + page" where
  "click_handler b st =
     (let term = trim (input_value st) in
      case choose_url term of
        Inl e \<Rightarrow> Inl e
      | Inr url \<Rightarrow> Inr (run_pipeline b url st))"

section \<open>The click handler of the third script\<close>

definition tags_extract :: "json \<Rightarrow> js_error + jsval list" where
  "tags_extract data =
     (case get_member (Some data) (js ''data'') of
        Inl e \<Rightarrow> Inl e
      | Inr (Some (JArr items)) \<Rightarrow> map_throwing original_url items
      | Inr _ \<Rightarrow> Inl TypeError)"

definition tags_img :: "jsstring \<Rightarrow> jsstring" where
  \<open>tags_img url = js ''<img src="'' @ url @ js ''" class="col-3 mb-3 img-fluid" alt="GIF">''\<close>

fun tags_append :: "browser \<Rightarrow> jsval list \<Rightarrow> page \<Rightarrow> js_error option \<times> page" where
  "tags_append b [] st = (None, st)"
| "tags_append b (url # rest) st =
     (case template_value (number_text b) url of
        Inl e \<Rightarrow> (Some e, st)
      | Inr s \<Rightarrow> tags_append b rest (append_html (tags_img s) st))"

text \<open>The first three statements of the \<^verbatim>\<open>try\<close> block: no look at the status, no filter.\<close>

definition tags_fetch :: "browser \<Rightarrow> jsstring \<Rightarrow> page \<Rightarrow> (js_error + jsval list) \<times> page" where
  "tags_fetch b url st =
     (let st1 = st\<lparr>requests := requests st @ [url]\<rparr> in
      case fetch b url of
        Inl e \<Rightarrow> (Inl e, st1)
      | Inr res \<Rightarrow>
          (case body res of
             Inl e \<Rightarrow> (Inl e, st1)
           | Inr data \<Rightarrow> (tags_extract data, st1)))"

definition tags_try :: "browser \<Rightarrow> jsstring \<Rightarrow> jsstring \<Rightarrow> page \<Rightarrow> js_error option \<times> page" where
  "tags_try b searchTerm url st =
     (case tags_fetch b url st of
        (Inl e, st1) \<Rightarrow> (Some e, st1)
      | (Inr images, st1) \<Rightarrow>
          (case tags_append b images (set_html [] st1) of
             (Some e, st2) \<Rightarrow> (Some e, st2)
           | (None, st2) \<Rightarrow>
               (None, console_log (LogImages images)
                        (console_log (LogText (js ''Search term: '' @ searchTerm)) st2))))"

text \<open>The handler: the alert and the early return, else the \<^verbatim>\<open>try\<close> with a \<^verbatim>\<open>catch\<close> that only logs.\<close>

definition tags_click_handler :: "browser \<Rightarrow> page \<Rightarrow> page" where
  "tags_click_handler b st =
     (let searchTerm = trim (input_value st) in
      if searchTerm = [] then st\<lparr>alerts := alerts st @ [js ''Please enter a search term!'']\<rparr>
      else
        (case tags_try b searchTerm (tags_endpoint searchTerm) st of
           (Some e, st1) \<Rightarrow> console_log (LogError e) st1
         | (None, st1) \<Rightarrow> st1))"

section \<open>Notions used to state the properties\<close>

text \<open>
  The query parameters of a URL as its receiver reads them: the part after the first
  \<^verbatim>\<open>?\<close> and before a \<^verbatim>\<open>#\<close>, cut at every \<^verbatim>\<open>&\<close>, each piece cut at its first
  \<^verbatim>\<open>=\<close>. \<open>query_values\<close> lists the values given to the parameter \<^verbatim>\<open>q\<close>.
\<close>

fun split_on :: "'a \<Rightarrow> 'a list \<Rightarrow> 'a list list" where
  "split_on c [] = [[]]"
| "split_on c (x # xs) =
     (if x = c then [] # split_on c xs
      else (case split_on c xs of [] \<Rightarrow> [[x]] | p # ps \<Rightarrow> (x # p) # ps))"

definition reserved :: "code_unit \<Rightarrow> bool" where
  "reserved c \<longleftrightarrow> c \<in> set (js ''?#&='')"

definition query_part :: "jsstring \<Rightarrow> jsstring" where
  "query_part url = takeWhile (\<lambda>c. c \<noteq> 0x23) (drop 1 (dropWhile (\<lambda>c. c \<noteq> 0x3F) url))"

definition key_value :: "jsstring \<Rightarrow> jsstring \<times> jsstring" where
  "key_value p = (takeWhile (\<lambda>c. c \<noteq> 0x3D) p, drop 1 (dropWhile (\<lambda>c. c \<noteq> 0x3D) p))"

definition query_params :: "jsstring \<Rightarrow> (jsstring \<times> jsstring) list" where
  "query_params url = map key_value (split_on 0x26 (query_part url))"

definition query_values :: "jsstring \<Rightarrow> jsstring list" where
  "query_values url = map snd (filter (\<lambda>kv. fst kv = js ''q'') (query_params url))"

text \<open>Whether the template literal can print a value, and what it prints.\<close>

definition converts :: "browser \<Rightarrow> jsval \<Rightarrow> bool" where
  "converts b v = (case template_value (number_text b) v of Inl e \<Rightarrow> False | Inr s \<Rightarrow> True)"

definition shown :: "browser \<Rightarrow> jsval \<Rightarrow> jsstring" where
  "shown b v = (case template_value (number_text b) v of Inl e \<Rightarrow> [] | Inr s \<Rightarrow> s)"

text \<open>The array of a body's \<^verbatim>\<open>data\<close> field, when the body has one.\<close>

definition data_array :: "json \<Rightarrow> json list option" where
  "data_array body_value =
     (case own_prop body_value (js ''data'') of Some (JArr items) \<Rightarrow> Some items | _ \<Rightarrow> None)"

text \<open>The value at \<^verbatim>\<open>images.original.url\<close> of a result, \<open>None\<close> on a missing path.\<close>

definition url_at :: "json \<Rightarrow> jsval" where
  "url_at item =
     opt_member (opt_member (opt_member (Some item) (js ''images'')) (js ''original''))
       (js ''url'')"

text \<open>
  The URL of a result as the response shape has it, a non-empty string at
  \<^verbatim>\<open>images.original.url\<close>, and the URLs of an array of results, in its order. A body
  keeps to the shape when every URL that is present is a string.
\<close>

definition url_text :: "json \<Rightarrow> jsstring option" where
  "url_text item =
     (case url_at item of Some (JStr s) \<Rightarrow> if s = [] then None else Some s | _ \<Rightarrow> None)"

definition image_urls :: "json list \<Rightarrow> jsstring list" where
  "image_urls items = List.map_filter url_text items"

definition string_urls :: "json list \<Rightarrow> bool" where
  "string_urls items =
     list_all (\<lambda>item. case url_at item of None \<Rightarrow> True | Some (JStr s) \<Rightarrow> True | Some _ \<Rightarrow> False)
       items"

text \<open>Pages, browsers and bodies to run the scripts on.\<close>

definition blank_page :: page where
  "blank_page =
     \<lparr>input_value = [], innerHTML = [], writes = [], console = [], alerts = [], requests = []\<rparr>"

definition offline :: browser where
  "offline = \<lparr>fetch = (\<lambda>url. Inl NetworkError), number_text = (\<lambda>n. [])\<rparr>"

definition serving :: "response \<Rightarrow> browser" where
  "serving res = \<lparr>fetch = (\<lambda>url. Inr res), number_text = (\<lambda>n. [])\<rparr>"

definition gif :: "jsstring \<Rightarrow> json" where
  "gif u = JObj [(js ''images'', JObj [(js ''original'', JObj [(js ''url'', JStr u)])])]"

definition results :: "json list \<Rightarrow> json" where
  "results items = JObj [(js ''data'', JArr items)]"

text \<open>
  The response of the specification's example: one result with a URL and one whose
  \<^verbatim>\<open>images\<close> is empty.
\<close>

definition example_body :: json where
  "example_body = results [gif (js ''https://x/1.gif''), JObj [(js ''images'', JObj [])]]"

text \<open>A result whose URL is an object with a property \<^verbatim>\<open>toString\<close> that is no function.\<close>

definition unprintable_body :: json where
  "unprintable_body =
     results [JObj [(js ''images'',
       JObj [(js ''original'', JObj [(js ''url'', JObj [(js ''toString'', JNum 0)])])])]]"

text \<open>The same network with every status replaced.\<close>

definition with_status :: "nat \<Rightarrow> browser \<Rightarrow> browser" where
  "with_status n b =
     b\<lparr>fetch := (\<lambda>url. case fetch b url of Inl e \<Rightarrow> Inl e | Inr res \<Rightarrow> Inr (res\<lparr>status := n\<rparr>))\<rparr>"

section \<open>Facts about the Query Builder\<close>

lemma js_append: "js (a @ b) = js a @ js b"
  by (simp add: js_def)

lemma encode_default: "encodeURIComponent (js ''cats'') = Inr (js ''cats'')"
  by (simp add: js_def uri_unescaped_def emit_def)

lemma decimal_LIMIT: "decimal LIMIT = js ''25''"
  by (simp add: LIMIT_def decimal.simps [of 25] decimal.simps [of 2] js_def)

lemma endpoint_text: "endpoint = Inr default_url"
  unfolding endpoint_def search_url_def DEFAULT_QUERY_def encode_default decimal_LIMIT
    API_KEY_def RATING_def LANG_def default_url_def
  by (simp add: js_append [symmetric])

lemma trim_blank:
  assumes "list_all is_space s"
  shows "trim s = []"
proof -
  have front: "dropWhile is_space s = []"
    using assms by (simp add: list_all_iff)
  show ?thesis
    unfolding trim_def front by simp
qed

lemma trim_cats: "trim (js ''cats'') = js ''cats''"
  by (simp add: trim_def js_def is_space_def)

lemma split_on_append: "c \<notin> set xs \<Longrightarrow> split_on c (xs @ c # ys) = xs # split_on c ys"
  by (induction xs) auto

lemma unescaped_not_reserved: "uri_unescaped c \<Longrightarrow> \<not> reserved c"
  by (auto simp: uri_unescaped_def reserved_def js_def)

lemma hex_digit_not_reserved:
  assumes "d < 16"
  shows "\<not> reserved (hex_digit d)"
proof -
  have "d = 0 \<or> d = 1 \<or> d = 2 \<or> d = 3 \<or> d = 4 \<or> d = 5 \<or> d = 6 \<or> d = 7 \<or> d = 8
      \<or> d = 9 \<or> d = 10 \<or> d = 11 \<or> d = 12 \<or> d = 13 \<or> d = 14 \<or> d = 15"
    using assms by arith
  then show ?thesis
    by (elim disjE) (simp_all add: hex_digit_def reserved_def js_def)
qed

lemma percent_not_reserved:
  assumes "octet < 256" and "c \<in> set (percent octet)"
  shows "\<not> reserved c"
proof -
  have "octet div 16 < 16" "octet mod 16 < 16"
    using assms(1) by auto
  then have "\<not> reserved (hex_digit (octet div 16))" "\<not> reserved (hex_digit (octet mod 16))"
    by (simp_all add: hex_digit_not_reserved)
  moreover have "\<not> reserved 0x25"
    by (simp add: reserved_def js_def)
  ultimately show ?thesis
    using assms(2) by (auto simp: percent_def)
qed

lemma utf8_octets:
  assumes "cp < 0x110000" and "octet \<in> set (utf8 cp)"
  shows "octet < 256"
  using assms by (auto simp: utf8_def split: if_splits)

lemma escape_not_reserved:
  assumes "cp < 0x110000" and "c \<in> set (escape cp)"
  shows "\<not> reserved c"
  using assms by (auto simp: escape_def dest: utf8_octets percent_not_reserved)

lemma unit_point: "unat (c :: code_unit) < 0x110000"
proof -
  have "unat c < 2 ^ 16"
    using unsigned_less [of c] by simp
  then show ?thesis by simp
qed

lemma pair_point_bound:
  assumes "is_lead hi" and "is_trail lo"
  shows "pair_point hi lo < 0x110000"
proof -
  have "unat hi \<le> 0xDBFF" "unat lo \<le> 0xDFFF"
    using assms by (simp_all add: is_lead_def is_trail_def word_le_nat_alt)
  then show ?thesis
    by (simp add: pair_point_def)
qed

lemma emit_Inr: "emit r rest = Inr q \<longleftrightarrow> (\<exists>t. rest = Inr t \<and> q = r @ t)"
  by (auto simp: emit_def split: sum.splits)

lemma encoded_not_reserved:
  "encodeURIComponent t = Inr q \<Longrightarrow> c \<in> set q \<Longrightarrow> \<not> reserved c"
proof (induction t arbitrary: q rule: encodeURIComponent.induct)
  case 1
  then show ?case by simp
next
  case (2 u us)
  show ?case
  proof (cases "uri_unescaped u")
    case True
    with "2.prems" obtain r where "encodeURIComponent us = Inr r" "q = u # r"
      by (auto simp: emit_Inr)
    with True "2.IH"(1) "2.prems"(2) show ?thesis
      by (auto dest: unescaped_not_reserved)
  next
    case False
    note not_unescaped = this
    show ?thesis
    proof (cases "\<not> is_lead u \<and> \<not> is_trail u")
      case True
      with not_unescaped "2.prems" obtain r where
        r: "encodeURIComponent us = Inr r" "q = escape (unat u) @ r"
        by (auto simp: emit_Inr)
      with not_unescaped True "2.IH"(2) "2.prems"(2) show ?thesis
        by (auto dest: escape_not_reserved [OF unit_point])
    next
      case False
      with not_unescaped "2.prems" obtain d ds r where
        parts: "\<not> is_trail u" "us = d # ds" "is_trail d"
          "encodeURIComponent ds = Inr r" "q = escape (pair_point u d) @ r"
        by (auto simp: emit_Inr split: if_splits list.splits)
      with False have lead: "is_lead u"
        by simp
      have "pair_point u d < 0x110000"
        using lead parts(3) by (rule pair_point_bound)
      with parts not_unescaped False "2.IH"(3) "2.prems"(2) show ?thesis
        by (auto dest: escape_not_reserved)
    qed
  qed
qed

lemma reserved_iff: "reserved c \<longleftrightarrow> c = 0x3F \<or> c = 0x23 \<or> c = 0x26 \<or> c = 0x3D"
  by (simp add: reserved_def js_def)

lemma js_q: "js ''q'' = [0x71]"
  by (simp add: js_def)

lemma dropWhile_upto: "c \<notin> set xs \<Longrightarrow> dropWhile (\<lambda>x. x \<noteq> c) (xs @ c # ys) = c # ys"
  by (induction xs) auto

lemma takeWhile_free: "c \<notin> set xs \<Longrightarrow> takeWhile (\<lambda>x. x \<noteq> c) xs = xs"
  by (induction xs) auto

lemma query_values_q:
  assumes base: "0x3F \<notin> set base"
    and first: "0x26 \<notin> set k" "0x23 \<notin> set k" "fst (key_value k) \<noteq> js ''q''"
    and q: "\<And>c. c \<in> set q \<Longrightarrow> \<not> reserved c"
    and rest: "0x23 \<notin> set t" "\<And>p. p \<in> set (split_on 0x26 t) \<Longrightarrow> fst (key_value p) \<noteq> js ''q''"
  shows "query_values (base @ 0x3F # k @ 0x26 # 0x71 # 0x3D # q @ 0x26 # t) = [q]"
proof -
  let ?query = "k @ 0x26 # 0x71 # 0x3D # q @ 0x26 # t"
  have q_free: "0x23 \<notin> set q" "0x26 \<notin> set q" "0x3D \<notin> set q"
    using q by (auto simp: reserved_iff)
  have "dropWhile (\<lambda>c. c \<noteq> 0x3F) (base @ 0x3F # ?query) = 0x3F # ?query"
    using base by (rule dropWhile_upto)
  moreover have "takeWhile (\<lambda>c. c \<noteq> 0x23) ?query = ?query"
    using first(2) q_free(1) rest(1) by (intro takeWhile_free) simp
  ultimately have part: "query_part (base @ 0x3F # ?query) = ?query"
    by (simp add: query_part_def)
  have "split_on 0x26 ?query = k # split_on 0x26 ((0x71 # 0x3D # q) @ 0x26 # t)"
    using first(1) by (simp add: split_on_append)
  also have "split_on 0x26 ((0x71 # 0x3D # q) @ 0x26 # t) = (0x71 # 0x3D # q) # split_on 0x26 t"
    using q_free(2) by (intro split_on_append) simp
  finally have pieces: "split_on 0x26 ?query = k # (0x71 # 0x3D # q) # split_on 0x26 t" .
  have mine: "key_value (0x71 # 0x3D # q) = (js ''q'', q)"
    by (simp add: key_value_def js_q)
  have others: "filter (\<lambda>kv. fst kv = js ''q'') (map key_value (split_on 0x26 t)) = []"
    using rest(2) by (auto simp: filter_empty_conv)
  show ?thesis
    using first(3) by (simp add: query_values_def query_params_def part pieces mine others)
qed

lemma search_url_shape:
  "encodeURIComponent t = Inr q \<Longrightarrow>
   search_url t =
     Inr (js ''https://api.giphy.com/v1/gifs/search'' @ 0x3F #
          js ''api_key=kRB3yQVxhHG7HfBAwbWk1eFfBTpMHdP3'' @ 0x26 # 0x71 # 0x3D # q @ 0x26 #
          js ''limit=25&offset=0&rating=g&lang=en&bundle=messaging_non_clips'')"
  by (simp add: search_url_def API_KEY_def decimal_LIMIT RATING_def LANG_def js_def)

lemma tags_endpoint_shape:
  "tags_endpoint t =
     js ''https://api.giphy.com/v1/gifs/search/tags'' @ 0x3F #
     js ''api_key=kRB3yQVxhHG7HfBAwbWk1eFfBTpMHdP3'' @ 0x26 # 0x71 # 0x3D # t @ 0x26 #
     js ''limit=25&offset=0''"
  by (simp add: tags_endpoint_def js_def)

lemma api_key_piece:
  "0x26 \<notin> set (js ''api_key=kRB3yQVxhHG7HfBAwbWk1eFfBTpMHdP3'')"
  "0x23 \<notin> set (js ''api_key=kRB3yQVxhHG7HfBAwbWk1eFfBTpMHdP3'')"
  "fst (key_value (js ''api_key=kRB3yQVxhHG7HfBAwbWk1eFfBTpMHdP3'')) \<noteq> js ''q''"
  by (simp_all add: js_def key_value_def)

lemma search_tail:
  "0x23 \<notin> set (js ''limit=25&offset=0&rating=g&lang=en&bundle=messaging_non_clips'')"
  "p \<in> set (split_on 0x26 (js ''limit=25&offset=0&rating=g&lang=en&bundle=messaging_non_clips''))
   \<Longrightarrow> fst (key_value p) \<noteq> js ''q''"
  by (auto simp: js_def key_value_def)

lemma tags_tail:
  "0x23 \<notin> set (js ''limit=25&offset=0'')"
  "p \<in> set (split_on 0x26 (js ''limit=25&offset=0'')) \<Longrightarrow> fst (key_value p) \<noteq> js ''q''"
  by (auto simp: js_def key_value_def)

lemma query_values_search_url:
  assumes "encodeURIComponent t = Inr q"
  shows "\<exists>u. search_url t = Inr u \<and> query_values u = [q]"
proof -
  have "query_values
      (js ''https://api.giphy.com/v1/gifs/search'' @ 0x3F #
       js ''api_key=kRB3yQVxhHG7HfBAwbWk1eFfBTpMHdP3'' @ 0x26 # 0x71 # 0x3D # q @ 0x26 #
       js ''limit=25&offset=0&rating=g&lang=en&bundle=messaging_non_clips'') = [q]"
  proof (rule query_values_q)
    show "0x3F \<notin> set (js ''https://api.giphy.com/v1/gifs/search'')"
      by (simp add: js_def)
    show "\<not> reserved c" if "c \<in> set q" for c
      using assms that by (rule encoded_not_reserved)
  qed (simp_all add: api_key_piece search_tail)
  with search_url_shape [OF assms] show ?thesis
    by simp
qed

lemma query_values_tags_endpoint:
  assumes "list_all (\<lambda>c. \<not> reserved c) t"
  shows "query_values (tags_endpoint t) = [t]"
  unfolding tags_endpoint_shape
proof (rule query_values_q)
  show "0x3F \<notin> set (js ''https://api.giphy.com/v1/gifs/search/tags'')"
    by (simp add: js_def)
  show "\<not> reserved c" if "c \<in> set t" for c
    using assms that by (simp add: list_all_iff)
qed (simp_all add: api_key_piece tags_tail)

text \<open>The encoding of a three-octet code point and of a surrogate pair.\<close>

lemma encode_euro: "encodeURIComponent [0x20AC] = Inr (js ''%E2%82%AC'')"
  by (simp add: js_def uri_unescaped_def emit_def is_lead_def is_trail_def escape_def utf8_def
      percent_def hex_digit_def)

lemma pair_point_grin: "pair_point 0xD83D 0xDE00 = 0x1F600"
  by (simp add: pair_point_def)

lemma encode_grin: "encodeURIComponent [0xD83D, 0xDE00] = Inr (js ''%F0%9F%98%80'')"
  by (simp add: pair_point_grin uri_unescaped_def is_lead_def is_trail_def emit_def escape_def
      utf8_def percent_def hex_digit_def js_def)

lemma encode_a_b: "encodeURIComponent (js ''a b'') = Inr (js ''a%20b'')"
  by (simp add: js_def uri_unescaped_def emit_def is_lead_def is_trail_def escape_def utf8_def
      percent_def hex_digit_def)

lemma trim_a_b: "trim (js '' a b '') = js ''a b''"
  by (simp add: trim_def js_def is_space_def)

lemma query_values_tags_a_amp_b: "query_values (tags_endpoint (js ''a&b'')) = [js ''a'']"
  by (simp add: tags_endpoint_def query_values_def query_params_def query_part_def key_value_def
      js_def)

lemma encode_a_amp_b: "encodeURIComponent (js ''a&b'') = Inr (js ''a%26b'')"
  by (simp add: js_def uri_unescaped_def emit_def is_lead_def is_trail_def escape_def utf8_def
      percent_def hex_digit_def)

section \<open>Facts about the pipeline of \<^verbatim>\<open>script.js\<close>\<close>

lemma fetchGifs_result: "fst (fetchGifs b url st) = fst (fetchGifs b url st')"
  by (simp add: fetchGifs_def Let_def split: sum.splits)

lemma fetchGifs_page:
  "snd (fetchGifs b url st) =
     (case fst (fetchGifs b url st) of
        Inl e \<Rightarrow> st\<lparr>requests := requests st @ [url]\<rparr>
      | Inr images \<Rightarrow> console_log (LogImages images) (st\<lparr>requests := requests st @ [url]\<rparr>))"
  by (simp add: fetchGifs_def Let_def split: sum.splits)

lemma append_cards_all:
  "list_all (converts b) images \<Longrightarrow>
   append_cards b images st =
     (None, st\<lparr>innerHTML := innerHTML st @ concat (map (\<lambda>v. image_card (shown b v)) images),
               writes := writes st @ map (\<lambda>v. Append (image_card (shown b v))) images\<rparr>)"
proof (induction images arbitrary: st)
  case Nil
  then show ?case by simp
next
  case (Cons v images)
  then obtain s where s: "template_value (number_text b) v = Inr s"
    by (auto simp: converts_def split: sum.splits)
  then have "shown b v = s"
    by (simp add: shown_def)
  with Cons s show ?case
    by (simp add: append_html_def)
qed

lemma append_cards_raises:
  "\<not> list_all (converts b) images \<Longrightarrow> \<exists>e st'. append_cards b images st = (Some e, st')"
proof (induction images arbitrary: st)
  case Nil
  then show ?case by simp
next
  case (Cons v images)
  then show ?case
    by (cases "template_value (number_text b) v") (auto simp: converts_def)
qed

lemma run_pipeline_failed:
  assumes "fst (fetchGifs b url st) = Inl e"
  shows "run_pipeline b url st =
           st\<lparr>requests := requests st @ [url], console := console st @ [LogError e],
              innerHTML := error_notice, writes := writes st @ [Assign error_notice]\<rparr>"
proof -
  have "fetchGifs b url st = (Inl e, st\<lparr>requests := requests st @ [url]\<rparr>)"
    using assms fetchGifs_page [of b url st] by (simp add: prod_eq_iff)
  then show ?thesis
    by (simp add: run_pipeline_def show_error_def set_html_def console_log_def)
qed

lemma run_pipeline_rendered:
  assumes "fst (fetchGifs b url st) = Inr images" and "list_all (converts b) images"
  shows "run_pipeline b url st =
           st\<lparr>requests := requests st @ [url], console := console st @ [LogImages images],
              innerHTML := concat (map (\<lambda>v. image_card (shown b v)) images),
              writes := writes st @ Assign [] # map (\<lambda>v. Append (image_card (shown b v))) images\<rparr>"
proof -
  have "fetchGifs b url st =
          (Inr images, console_log (LogImages images) (st\<lparr>requests := requests st @ [url]\<rparr>))"
    using assms(1) fetchGifs_page [of b url st] by (simp add: prod_eq_iff)
  then show ?thesis
    by (simp add: run_pipeline_def append_cards_all [OF assms(2)] set_html_def console_log_def)
qed

lemma run_pipeline_raised:
  assumes "fst (fetchGifs b url st) = Inr images" and "\<not> list_all (converts b) images"
  shows "innerHTML (run_pipeline b url st) = error_notice"
proof -
  have f: "fetchGifs b url st =
          (Inr images, console_log (LogImages images) (st\<lparr>requests := requests st @ [url]\<rparr>))"
    using assms(1) fetchGifs_page [of b url st] by (simp add: prod_eq_iff)
  obtain e st' where
    "append_cards b images
       (set_html [] (console_log (LogImages images) (st\<lparr>requests := requests st @ [url]\<rparr>))) =
     (Some e, st')"
    using append_cards_raises [OF assms(2)] by blast
  with f show ?thesis
    by (simp add: run_pipeline_def show_error_def set_html_def)
qed

lemma innerHTML_run_pipeline:
  "innerHTML (run_pipeline b url st) =
     (case fst (fetchGifs b url st) of
        Inl e \<Rightarrow> error_notice
      | Inr images \<Rightarrow>
          if list_all (converts b) images then concat (map (\<lambda>v. image_card (shown b v)) images)
          else error_notice)"
  by (simp add: run_pipeline_failed run_pipeline_rendered run_pipeline_raised split: sum.splits)

lemma requests_append_cards:
  "append_cards b xs st = (r, st') \<Longrightarrow> requests st' = requests st"
  by (induction xs arbitrary: st) (auto simp: append_html_def split: sum.splits)

lemma requests_run_pipeline: "requests (run_pipeline b url st) = requests st @ [url]"
  by (auto simp: run_pipeline_def fetchGifs_def show_error_def set_html_def console_log_def Let_def
      dest!: requests_append_cards
      split: sum.splits prod.splits option.splits)

lemma extract_images_array:
  "data_array data = Some items \<Longrightarrow>
   extract_images data = map_throwing original_url (filter has_original_url items)"
  by (cases data)
    (auto simp: data_array_def own_prop_def get_member_def extract_images_def
          split: option.splits json.splits)

lemma extract_images_no_array:
  "data_array data = None \<Longrightarrow> extract_images data = Inl TypeError"
  by (cases data)
    (auto simp: data_array_def own_prop_def get_member_def extract_images_def
          split: option.splits json.splits)

section \<open>Facts about the extraction\<close>

lemma member_of_opt_member:
  "opt_member v k \<noteq> None \<Longrightarrow> get_member v k = Inr (opt_member v k)"
  by (auto simp: opt_member_def get_member_def split: option.splits json.splits)

lemma opt_member_None [simp]: "opt_member None k = None"
  by (simp add: opt_member_def)

lemma has_original_url_iff: "has_original_url item \<longleftrightarrow> truthy (url_at item)"
  by (simp add: has_original_url_def url_at_def)

lemma truthy_not_None: "truthy v \<Longrightarrow> v \<noteq> None"
  by (cases v) simp_all

lemma original_url_filtered:
  assumes "has_original_url item"
  shows "original_url item = Inr (url_at item)"
proof -
  let ?x1 = "opt_member (Some item) (js ''images'')"
  let ?x2 = "opt_member ?x1 (js ''original'')"
  let ?x3 = "opt_member ?x2 (js ''url'')"
  have x3: "?x3 \<noteq> None"
    using assms truthy_not_None by (auto simp: has_original_url_def)
  then have x2: "?x2 \<noteq> None"
    by (metis opt_member_None)
  then have x1: "?x1 \<noteq> None"
    by (metis opt_member_None)
  show ?thesis
    unfolding original_url_def url_at_def then_member_def
    by (simp add: member_of_opt_member [OF x1] member_of_opt_member [OF x2]
        member_of_opt_member [OF x3])
qed

lemma map_throwing_total:
  "(\<And>x. x \<in> set xs \<Longrightarrow> f x = Inr (g x)) \<Longrightarrow> map_throwing f xs = Inr (map g xs)"
  by (induction xs) auto

lemma extract_images_filtered:
  assumes "data_array data = Some items"
  shows "extract_images data = Inr (map url_at (filter has_original_url items))"
  unfolding extract_images_array [OF assms]
  by (rule map_throwing_total) (simp add: original_url_filtered)

lemma converts_string: "converts b (Some (JStr s))"
  by (simp add: converts_def template_value_def)

lemma shown_string: "shown b (Some (JStr s)) = s"
  by (simp add: shown_def template_value_def)

lemma filtered_urls:
  "string_urls items \<Longrightarrow>
   map (shown b) (map url_at (filter has_original_url items)) = image_urls items
   \<and> list_all (converts b) (map url_at (filter has_original_url items))"
proof (induction items)
  case Nil
  then show ?case by (simp add: image_urls_def)
next
  case (Cons item items)
  then have rest: "map (shown b) (map url_at (filter has_original_url items)) = image_urls items"
    "list_all (converts b) (map url_at (filter has_original_url items))"
    by (simp_all add: string_urls_def)
  consider "url_at item = None" | s where "url_at item = Some (JStr s)"
    using Cons.prems by (auto simp: string_urls_def split: option.splits json.splits)
  then show ?case
  proof cases
    case 1
    with rest show ?thesis
      by (simp add: has_original_url_iff [of item] image_urls_def url_text_def)
  next
    case 2
    with rest show ?thesis
      by (simp add: has_original_url_iff [of item] image_urls_def url_text_def
          converts_string shown_string)
  qed
qed

lemma count_image_urls:
  "length (image_urls items) = length (filter (\<lambda>item. url_text item \<noteq> None) items)"
  by (induction items) (auto simp: image_urls_def split: option.splits)

text \<open>
  On a success response whose URLs are strings, \<^verbatim>\<open>script.js\<close> clears the display region
  and appends one card for each result with a non-empty URL, in the order of the array.
\<close>

lemma script_renders_each_url:
  assumes "fetch b url = Inr res" and "ok res" and "body res = Inr data"
    and "data_array data = Some items" and "string_urls items"
  shows "run_pipeline b url st =
           st\<lparr>requests := requests st @ [url],
              console := console st @ [LogImages (map url_at (filter has_original_url items))],
              innerHTML := concat (map image_card (image_urls items)),
              writes := writes st @ Assign [] # map (\<lambda>s. Append (image_card s)) (image_urls items)\<rparr>"
proof -
  let ?images = "map url_at (filter has_original_url items)"
  have "fst (fetchGifs b url st) = Inr ?images"
    using assms(1-3) by (simp add: fetchGifs_def extract_images_filtered [OF assms(4)])
  moreover have all: "list_all (converts b) ?images"
    and urls: "map (shown b) ?images = image_urls items"
    using filtered_urls [OF assms(5)] by simp_all
  moreover have "map (\<lambda>v. image_card (shown b v)) ?images = map image_card (image_urls items)"
    by (simp add: urls [symmetric] o_def)
  moreover have "map (\<lambda>v. Append (image_card (shown b v))) ?images =
      map (\<lambda>s. Append (image_card s)) (image_urls items)"
    by (simp add: urls [symmetric] o_def)
  ultimately show ?thesis
    using run_pipeline_rendered [of b url st ?images] by simp
qed

section \<open>Facts about the third script\<close>

lemma tags_fetch_page:
  "snd (tags_fetch b url st) = st\<lparr>requests := requests st @ [url]\<rparr>"
  by (simp add: tags_fetch_def Let_def split: sum.splits)

lemma tags_click_failed:
  assumes "trim (input_value st) \<noteq> []"
    and "fst (tags_fetch b (tags_endpoint (trim (input_value st))) st) = Inl e"
  shows "tags_click_handler b st =
           st\<lparr>requests := requests st @ [tags_endpoint (trim (input_value st))],
              console := console st @ [LogError e]\<rparr>"
proof -
  have "tags_fetch b (tags_endpoint (trim (input_value st))) st =
          (Inl e, st\<lparr>requests := requests st @ [tags_endpoint (trim (input_value st))]\<rparr>)"
    using assms(2) tags_fetch_page [of b "tags_endpoint (trim (input_value st))" st]
    by (simp add: prod_eq_iff)
  then show ?thesis
    using assms(1) by (simp add: tags_click_handler_def tags_try_def console_log_def Let_def)
qed

lemma tags_append_with_status: "tags_append (with_status n b) = tags_append b"
proof (intro ext)
  fix xs st
  show "tags_append (with_status n b) xs st = tags_append b xs st"
    by (induction xs arbitrary: st) (auto simp: with_status_def split: sum.splits)
qed

lemma tags_fetch_with_status: "tags_fetch (with_status n b) = tags_fetch b"
  by (intro ext) (simp add: tags_fetch_def with_status_def Let_def split: sum.splits)

lemma tags_click_with_status: "tags_click_handler (with_status n b) st = tags_click_handler b st"
  unfolding tags_click_handler_def tags_try_def tags_fetch_with_status tags_append_with_status
  by (rule refl)

lemma tags_extract_no_array:
  "data_array data = None \<Longrightarrow> tags_extract data = Inl TypeError"
  by (cases data)
    (auto simp: data_array_def own_prop_def get_member_def tags_extract_def
          split: option.splits json.splits)

lemma tags_append_all:
  "list_all (converts b) images \<Longrightarrow>
   tags_append b images st =
     (None, st\<lparr>innerHTML := innerHTML st @ concat (map (\<lambda>v. tags_img (shown b v)) images),
               writes := writes st @ map (\<lambda>v. Append (tags_img (shown b v))) images\<rparr>)"
proof (induction images arbitrary: st)
  case Nil
  then show ?case by simp
next
  case (Cons v images)
  then obtain s where s: "template_value (number_text b) v = Inr s"
    by (auto simp: converts_def split: sum.splits)
  then have "shown b v = s"
    by (simp add: shown_def)
  with Cons s show ?case
    by (simp add: append_html_def)
qed

lemma tags_click_rendered:
  assumes "trim (input_value st) \<noteq> []"
    and "fst (tags_fetch b (tags_endpoint (trim (input_value st))) st) = Inr images"
    and "list_all (converts b) images"
  shows "tags_click_handler b st =
           st\<lparr>requests := requests st @ [tags_endpoint (trim (input_value st))],
              innerHTML := concat (map (\<lambda>v. tags_img (shown b v)) images),
              writes := writes st @ Assign [] # map (\<lambda>v. Append (tags_img (shown b v))) images,
              console := console st @
                [LogText (js ''Search term: '' @ trim (input_value st)), LogImages images]\<rparr>"
proof -
  have "tags_fetch b (tags_endpoint (trim (input_value st))) st =
          (Inr images, st\<lparr>requests := requests st @ [tags_endpoint (trim (input_value st))]\<rparr>)"
    using assms(2) tags_fetch_page [of b "tags_endpoint (trim (input_value st))" st]
    by (simp add: prod_eq_iff)
  then show ?thesis
    using assms(1)
    by (simp add: tags_click_handler_def tags_try_def tags_append_all [OF assms(3)]
        set_html_def console_log_def Let_def)
qed

section \<open>Facts about the pages and browsers of the examples\<close>

lemma decimal_404: "decimal 404 = js ''404''"
  by (simp add: decimal.simps [of 404] decimal.simps [of 40] decimal.simps [of 4] js_def)

lemma error_notice_nonempty: "error_notice \<noteq> []"
  by (simp add: error_notice_def)

lemma blank_page_fields:
  "input_value blank_page = []" "innerHTML blank_page = []" "writes blank_page = []"
  "console blank_page = []" "alerts blank_page = []" "requests blank_page = []"
  by (simp_all add: blank_page_def)

lemma cats_nonempty: "js ''cats'' \<noteq> []"
  by (simp add: js_def)

lemma fetchGifs_offline: "fst (fetchGifs offline url st) = Inl NetworkError"
  by (simp add: fetchGifs_def offline_def)

lemma fetchGifs_500:
  "fst (fetchGifs (serving \<lparr>status = 500, body = Inr (results [])\<rparr>) url st) =
     Inl (Error (js ''HTTP 500''))"
  by (simp add: fetchGifs_def serving_def ok_def decimal.simps [of 500] decimal.simps [of 50]
      decimal.simps [of 5] js_def)

lemma fetchGifs_malformed:
  "fst (fetchGifs (serving \<lparr>status = 200, body = Inl SyntaxError\<rparr>) url st) = Inl SyntaxError"
  by (simp add: fetchGifs_def serving_def ok_def)

lemma tags_fetch_malformed:
  "fst (tags_fetch (serving \<lparr>status = 200, body = Inl SyntaxError\<rparr>) url st) = Inl SyntaxError"
  by (simp add: tags_fetch_def serving_def)

lemma url_at_gif: "url_at (gif u) = Some (JStr u)"
  by (simp add: url_at_def gif_def opt_member_def own_prop_def js_def)

lemma empty_images_no_url: "url_at (JObj [(js ''images'', JObj [])]) = None"
  by (simp add: url_at_def opt_member_def own_prop_def js_def)

lemma original_url_gif: "original_url (gif u) = Inr (Some (JStr u))"
  by (simp add: original_url_def gif_def then_member_def get_member_def own_prop_def js_def)

lemma extract_example: "extract_images example_body = Inr [Some (JStr (js ''https://x/1.gif''))]"
proof -
  have "data_array example_body =
      Some [gif (js ''https://x/1.gif''), JObj [(js ''images'', JObj [])]]"
    by (simp add: example_body_def results_def data_array_def own_prop_def)
  moreover have "url_at (JObj [(js ''images'', JObj [])]) = None"
    by (simp add: url_at_def opt_member_def own_prop_def js_def)
  moreover have "js ''https://x/1.gif'' \<noteq> []"
    by (simp add: js_def)
  ultimately show ?thesis
    by (simp add: extract_images_filtered has_original_url_iff url_at_gif)
qed

lemma tags_extract_example: "tags_extract example_body = Inl TypeError"
proof -
  have "original_url (JObj [(js ''images'', JObj [])]) = Inl TypeError"
    by (simp add: original_url_def then_member_def get_member_def own_prop_def js_def)
  then show ?thesis
    by (simp add: tags_extract_def example_body_def results_def get_member_def own_prop_def
        original_url_gif)
qed

lemma fetchGifs_example:
  "fst (fetchGifs (serving \<lparr>status = 200, body = Inr example_body\<rparr>) url st) =
     Inr [Some (JStr (js ''https://x/1.gif''))]"
  by (simp add: fetchGifs_def serving_def ok_def extract_example)

lemma tags_fetch_example:
  "fst (tags_fetch (serving \<lparr>status = 200, body = Inr example_body\<rparr>) url st) = Inl TypeError"
  by (simp add: tags_fetch_def serving_def tags_extract_example)

lemma fetchGifs_unprintable:
  "fst (fetchGifs (serving \<lparr>status = 200, body = Inr unprintable_body\<rparr>) url st) =
     Inr [Some (JObj [(js ''toString'', JNum 0)])]"
proof -
  let ?item = "JObj [(js ''images'',
       JObj [(js ''original'', JObj [(js ''url'', JObj [(js ''toString'', JNum 0)])])])]"
  have "data_array unprintable_body = Some [?item]"
    by (simp add: unprintable_body_def results_def data_array_def own_prop_def)
  moreover have "url_at ?item = Some (JObj [(js ''toString'', JNum 0)])"
    by (simp add: url_at_def opt_member_def own_prop_def js_def)
  ultimately have "extract_images unprintable_body = Inr [Some (JObj [(js ''toString'', JNum 0)])]"
    by (simp add: extract_images_filtered has_original_url_iff)
  then show ?thesis
    by (simp add: fetchGifs_def serving_def ok_def)
qed

lemma tags_fetch_gif:
  "fst (tags_fetch (serving \<lparr>status = 200, body = Inr (results [gif u])\<rparr>) url st) =
     Inr [Some (JStr u)]"
  by (simp add: tags_fetch_def serving_def tags_extract_def results_def get_member_def own_prop_def
      original_url_gif)

section \<open>The claims\<close>

text \<open>
  C1. The extract-and-render step of \<^verbatim>\<open>script.js\<close> renders one image element for each
  result with a non-empty URL, in order, and skips the others (lemmas
  \<open>script_renders_each_url\<close> and \<open>count_image_urls\<close>, for bodies whose URLs are
  strings). The third script maps
  without the filter and does not: on the specification's example, a result with a URL
  followed by one whose \<^verbatim>\<open>images\<close> is empty, it raises TypeError in the map, logs it
  and renders no image, where \<^verbatim>\<open>script.js\<close> renders the one image.
\<close>

theorem unfiltered_script_fails_on_example:
  "tags_click_handler (serving \<lparr>status = 200, body = Inr example_body\<rparr>)
       (blank_page\<lparr>input_value := js ''cats''\<rparr>) =
     blank_page\<lparr>input_value := js ''cats'', requests := [tags_endpoint (js ''cats'')],
                console := [LogError TypeError]\<rparr>
   \<and> innerHTML (run_pipeline (serving \<lparr>status = 200, body = Inr example_body\<rparr>) default_url
       blank_page) = image_card (js ''https://x/1.gif'')
   \<and> data_array example_body =
       Some [gif (js ''https://x/1.gif''), JObj [(js ''images'', JObj [])]]
   \<and> image_urls [gif (js ''https://x/1.gif''), JObj [(js ''images'', JObj [])]] =
       [js ''https://x/1.gif'']"
proof -
  have "tags_click_handler (serving \<lparr>status = 200, body = Inr example_body\<rparr>)
       (blank_page\<lparr>input_value := js ''cats''\<rparr>) =
     blank_page\<lparr>input_value := js ''cats'', requests := [tags_endpoint (js ''cats'')],
                console := [LogError TypeError]\<rparr>"
    using tags_click_failed
      [of "blank_page\<lparr>input_value := js ''cats''\<rparr>"
          "serving \<lparr>status = 200, body = Inr example_body\<rparr>" TypeError]
    by (simp add: trim_cats cats_nonempty tags_fetch_example blank_page_fields)
  moreover have "innerHTML (run_pipeline (serving \<lparr>status = 200, body = Inr example_body\<rparr>)
       default_url blank_page) = image_card (js ''https://x/1.gif'')"
    by (simp add: innerHTML_run_pipeline fetchGifs_example converts_string shown_string)
  moreover have "data_array example_body =
       Some [gif (js ''https://x/1.gif''), JObj [(js ''images'', JObj [])]]"
    by (simp add: example_body_def results_def data_array_def own_prop_def)
  moreover have "image_urls [gif (js ''https://x/1.gif''), JObj [(js ''images'', JObj [])]] =
       [js ''https://x/1.gif'']"
    by (simp add: image_urls_def url_text_def url_at_gif empty_images_no_url) (simp add: js_def)
  ultimately show ?thesis
    by simp
qed

text \<open>
  C2, as amended. In \<^verbatim>\<open>script.js\<close> (and its second copy), when the response has a
  non-success status, \<^verbatim>\<open>fetchGifs\<close> raises the error whose message is \<^verbatim>\<open>HTTP\<close> and
  the status in decimal; the pipeline logs it and assigns the error notice to the display
  region, its only write: one notice, no image. The third script does not read the status:
  its handler does the same on a network whose statuses are all replaced.
\<close>

theorem non_success_status:
  assumes "fetch b url = Inr res" and "\<not> ok res"
  shows "run_pipeline b url st =
           st\<lparr>requests := requests st @ [url],
              console := console st @ [LogError (Error (js ''HTTP '' @ decimal (status res)))],
              innerHTML := error_notice, writes := writes st @ [Assign error_notice]\<rparr>
         \<and> tags_click_handler (with_status n b) st' = tags_click_handler b st'"
proof -
  have "fst (fetchGifs b url st) = Inl (Error (js ''HTTP '' @ decimal (status res)))"
    using assms by (simp add: fetchGifs_def)
  then show ?thesis
    by (simp add: run_pipeline_failed tags_click_with_status)
qed

theorem non_success_status_witness:
  "fetch (serving \<lparr>status = 404, body = Inr (results [])\<rparr>) default_url =
     Inr \<lparr>status = 404, body = Inr (results [])\<rparr>
   \<and> \<not> ok \<lparr>status = 404, body = Inr (results [])\<rparr>
   \<and> run_pipeline (serving \<lparr>status = 404, body = Inr (results [])\<rparr>) default_url blank_page =
       blank_page\<lparr>requests := [default_url], console := [LogError (Error (js ''HTTP 404''))],
                  innerHTML := error_notice, writes := [Assign error_notice]\<rparr>"
  using non_success_status
    [of "serving \<lparr>status = 404, body = Inr (results [])\<rparr>" default_url
        "\<lparr>status = 404, body = Inr (results [])\<rparr>" blank_page]
  by (simp add: serving_def ok_def blank_page_def decimal_404 js_append [symmetric])

text \<open>
  Against C2 as stated: the third script, given the status 404 with a body whose
  \<^verbatim>\<open>data\<close> is the empty array, takes its success path; it clears the display region,
  logs no error and shows no notice.
\<close>

theorem tags_renders_not_found:
  "\<not> ok \<lparr>status = 404, body = Inr (results [])\<rparr>
   \<and> tags_click_handler (serving \<lparr>status = 404, body = Inr (results [])\<rparr>)
       (blank_page\<lparr>input_value := js ''cats''\<rparr>) =
     blank_page\<lparr>input_value := js ''cats'', requests := [tags_endpoint (js ''cats'')],
                innerHTML := [], writes := [Assign []],
                console := [LogText (js ''Search term: cats''), LogImages []]\<rparr>
   \<and> innerHTML (tags_click_handler (serving \<lparr>status = 404, body = Inr (results [])\<rparr>)
       (blank_page\<lparr>input_value := js ''cats''\<rparr>)) \<noteq> error_notice"
proof -
  have "tags_extract (results []) = Inr []"
    by (simp add: tags_extract_def results_def get_member_def own_prop_def)
  then have run: "tags_click_handler (serving \<lparr>status = 404, body = Inr (results [])\<rparr>)
       (blank_page\<lparr>input_value := js ''cats''\<rparr>) =
     blank_page\<lparr>input_value := js ''cats'', requests := [tags_endpoint (js ''cats'')],
                innerHTML := [], writes := [Assign []],
                console := [LogText (js ''Search term: cats''), LogImages []]\<rparr>"
    by (simp add: tags_click_handler_def tags_try_def tags_fetch_def trim_cats serving_def
        blank_page_def set_html_def console_log_def Let_def js_append [symmetric])
      (simp add: js_def)
  show ?thesis
    unfolding run using error_notice_nonempty by (simp add: ok_def blank_page_def)
qed

text \<open>
  C3, as amended. In \<^verbatim>\<open>script.js\<close> (and its second copy), for every input whose trimmed
  term is non-empty and has an encoding, the handler builds a URL whose query gives the
  parameter \<^verbatim>\<open>q\<close> exactly one value, the encoded term; a term that
  \<^verbatim>\<open>encodeURIComponent\<close> rejects (an unpaired surrogate) gives no URL. The third script
  does not encode: when the trimmed term has none of \<^verbatim>\<open>? # & =\<close>, the one value of
  \<^verbatim>\<open>q\<close> in its URL is the term itself.
\<close>

theorem term_is_the_q_parameter:
  assumes "trim v \<noteq> []"
  shows "(encodeURIComponent (trim v) = Inr q \<longrightarrow>
            (\<exists>u. choose_url (trim v) = Inr u \<and> query_values u = [q]))
         \<and> (encodeURIComponent (trim v) = Inl e \<longrightarrow> choose_url (trim v) = Inl e)
         \<and> (list_all (\<lambda>c. \<not> reserved c) (trim v) \<longrightarrow>
            query_values (tags_endpoint (trim v)) = [trim v])"
proof -
  have "choose_url (trim v) = search_url (trim v)"
    using assms by (simp add: choose_url_def)
  moreover have "search_url (trim v) = Inl e" if "encodeURIComponent (trim v) = Inl e"
    using that by (simp add: search_url_def)
  ultimately show ?thesis
    using query_values_search_url [of "trim v" q] query_values_tags_endpoint [of "trim v"]
    by simp
qed

theorem term_is_the_q_parameter_witness:
  "trim (js '' a b '') \<noteq> []
   \<and> encodeURIComponent (trim (js '' a b '')) = Inr (js ''a%20b'')
   \<and> (\<exists>u. choose_url (trim (js '' a b '')) = Inr u \<and> query_values u = [js ''a%20b''])
   \<and> encodeURIComponent (trim [0xD83D]) = Inl URIError
   \<and> choose_url (trim [0xD83D]) = Inl URIError
   \<and> list_all (\<lambda>c. \<not> reserved c) (trim (js '' a b ''))
   \<and> query_values (tags_endpoint (trim (js '' a b ''))) = [js ''a b'']"
proof -
  have ab: "js ''a b'' \<noteq> []" "list_all (\<lambda>c. \<not> reserved c) (js ''a b'')"
    by (simp_all add: js_def reserved_def)
  have lone: "trim [0xD83D] = [0xD83D]" "encodeURIComponent [0xD83D] = Inl URIError"
    by (simp_all add: trim_def is_space_def uri_unescaped_def js_def is_lead_def is_trail_def)
  note spaced = term_is_the_q_parameter [of "js '' a b ''" "js ''a%20b''", unfolded trim_a_b]
  note unpaired = term_is_the_q_parameter [of "[0xD83D]" _ URIError, unfolded lone]
  show ?thesis
    unfolding trim_a_b lone using spaced unpaired by (simp add: encode_a_b ab)
qed

text \<open>
  Against C3 as stated: for the term \<^verbatim>\<open>a&b\<close> the URL of the third script gives
  \<^verbatim>\<open>q\<close> the value \<^verbatim>\<open>a\<close>, which is not the encoded term \<^verbatim>\<open>a%26b\<close>.
\<close>

theorem tags_url_is_not_encoded:
  "trim (js ''a&b'') = js ''a&b''
   \<and> encodeURIComponent (js ''a&b'') = Inr (js ''a%26b'')
   \<and> query_values (tags_endpoint (js ''a&b'')) = [js ''a'']
   \<and> js ''a'' \<noteq> js ''a%26b''"
  by (simp add: query_values_tags_a_amp_b encode_a_amp_b) (simp add: trim_def js_def is_space_def)

text \<open>
  C4. For an empty or whitespace-only input each script follows its own policy: the handler
  of \<^verbatim>\<open>script.js\<close> (and of its second copy) runs the pipeline on the default URL, the one
  with the term \<^verbatim>\<open>cats\<close> and the fixed parameters, and issues that one request; the
  handler of the third script only adds the alert to the page: no request, no write.
\<close>

theorem blank_input_policies:
  assumes "list_all is_space (input_value st)"
  shows "click_handler b st = Inr (run_pipeline b default_url st)
         \<and> requests (run_pipeline b default_url st) = requests st @ [default_url]
         \<and> tags_click_handler b st =
             st\<lparr>alerts := alerts st @ [js ''Please enter a search term!'']\<rparr>"
  using assms
  by (simp add: click_handler_def tags_click_handler_def choose_url_def trim_blank
      endpoint_text requests_run_pipeline)

theorem blank_input_policies_witness:
  "list_all is_space (input_value (blank_page\<lparr>input_value := js ''  ''\<rparr>))
   \<and> click_handler offline (blank_page\<lparr>input_value := js ''  ''\<rparr>) =
       Inr (run_pipeline offline default_url (blank_page\<lparr>input_value := js ''  ''\<rparr>))
   \<and> tags_click_handler offline (blank_page\<lparr>input_value := js ''  ''\<rparr>) =
       blank_page\<lparr>input_value := js ''  '', alerts := [js ''Please enter a search term!'']\<rparr>"
  using blank_input_policies [of "blank_page\<lparr>input_value := js ''  ''\<rparr>" offline]
  by (simp add: blank_page_def js_def is_space_def)

text \<open>
  C5, as amended. In \<^verbatim>\<open>script.js\<close> (and its second copy), when the decoded body of a
  success response has no \<^verbatim>\<open>data\<close> array, \<^verbatim>\<open>fetchGifs\<close> raises TypeError, and the
  pipeline logs it and assigns the error notice, its only write: one notice, no image. A
  body that fails to decode leaves the same markup and the same writes. The third script,
  given such a body, only logs the TypeError: no notice, no write.
\<close>

theorem missing_data_field:
  assumes "fetch b url = Inr res" and "ok res" and "body res = Inr data"
    and "data_array data = None"
  shows "run_pipeline b url st =
           st\<lparr>requests := requests st @ [url], console := console st @ [LogError TypeError],
              innerHTML := error_notice, writes := writes st @ [Assign error_notice]\<rparr>
         \<and> (fetch b2 url2 = Inr res2 \<and> ok res2 \<and> body res2 = Inl e \<longrightarrow>
              innerHTML (run_pipeline b2 url2 st) = innerHTML (run_pipeline b url st)
              \<and> writes (run_pipeline b2 url2 st) = writes (run_pipeline b url st))
         \<and> (trim (input_value st3) \<noteq> []
              \<and> fetch b3 (tags_endpoint (trim (input_value st3))) = Inr res3
              \<and> body res3 = Inr data \<longrightarrow>
              tags_click_handler b3 st3 =
                st3\<lparr>requests := requests st3 @ [tags_endpoint (trim (input_value st3))],
                    console := console st3 @ [LogError TypeError]\<rparr>)"
proof -
  have "fst (fetchGifs b url st) = Inl TypeError"
    using assms by (simp add: fetchGifs_def extract_images_no_array)
  then have script: "run_pipeline b url st =
           st\<lparr>requests := requests st @ [url], console := console st @ [LogError TypeError],
              innerHTML := error_notice, writes := writes st @ [Assign error_notice]\<rparr>"
    by (rule run_pipeline_failed)
  have parse: "innerHTML (run_pipeline b2 url2 st) = innerHTML (run_pipeline b url st)
      \<and> writes (run_pipeline b2 url2 st) = writes (run_pipeline b url st)"
    if "fetch b2 url2 = Inr res2" and "ok res2" and "body res2 = Inl e"
  proof -
    have "fst (fetchGifs b2 url2 st) = Inl e"
      using that by (simp add: fetchGifs_def)
    then show ?thesis
      by (simp add: run_pipeline_failed script)
  qed
  have tags: "tags_click_handler b3 st3 =
                st3\<lparr>requests := requests st3 @ [tags_endpoint (trim (input_value st3))],
                    console := console st3 @ [LogError TypeError]\<rparr>"
    if "trim (input_value st3) \<noteq> []"
      and "fetch b3 (tags_endpoint (trim (input_value st3))) = Inr res3"
      and "body res3 = Inr data"
  proof -
    have "fst (tags_fetch b3 (tags_endpoint (trim (input_value st3))) st3) = Inl TypeError"
      using that assms(4) by (simp add: tags_fetch_def tags_extract_no_array)
    with that(1) show ?thesis
      by (rule tags_click_failed)
  qed
  from script parse tags show ?thesis
    by blast
qed

theorem missing_data_field_witness:
  "fetch (serving \<lparr>status = 200, body = Inr (JObj [])\<rparr>) default_url =
     Inr \<lparr>status = 200, body = Inr (JObj [])\<rparr>
   \<and> ok \<lparr>status = 200, body = Inr (JObj [])\<rparr>
   \<and> data_array (JObj []) = None
   \<and> run_pipeline (serving \<lparr>status = 200, body = Inr (JObj [])\<rparr>) default_url blank_page =
       blank_page\<lparr>requests := [default_url], console := [LogError TypeError],
                  innerHTML := error_notice, writes := [Assign error_notice]\<rparr>
   \<and> ok \<lparr>status = 200, body = Inl SyntaxError\<rparr>
   \<and> writes (run_pipeline (serving \<lparr>status = 200, body = Inl SyntaxError\<rparr>) default_url
         blank_page) =
       writes (run_pipeline (serving \<lparr>status = 200, body = Inr (JObj [])\<rparr>) default_url
         blank_page)
   \<and> trim (input_value (blank_page\<lparr>input_value := js ''cats''\<rparr>)) \<noteq> []
   \<and> tags_click_handler (serving \<lparr>status = 200, body = Inr (JObj [])\<rparr>)
         (blank_page\<lparr>input_value := js ''cats''\<rparr>) =
       blank_page\<lparr>input_value := js ''cats'', requests := [tags_endpoint (js ''cats'')],
                  console := [LogError TypeError]\<rparr>"
  using missing_data_field
    [where b = "serving \<lparr>status = 200, body = Inr (JObj [])\<rparr>" and url = default_url
       and res = "\<lparr>status = 200, body = Inr (JObj [])\<rparr>" and data = "JObj []"
       and st = blank_page
       and ?b2.0 = "serving \<lparr>status = 200, body = Inl SyntaxError\<rparr>" and ?url2.0 = default_url
       and ?res2.0 = "\<lparr>status = 200, body = Inl SyntaxError\<rparr>" and e = SyntaxError
       and ?st3.0 = "blank_page\<lparr>input_value := js ''cats''\<rparr>"
       and ?b3.0 = "serving \<lparr>status = 200, body = Inr (JObj [])\<rparr>"
       and ?res3.0 = "\<lparr>status = 200, body = Inr (JObj [])\<rparr>"]
  by (simp add: serving_def ok_def data_array_def own_prop_def blank_page_def trim_cats)
    (simp add: js_def)

text \<open>
  Against C5 as stated: the third script, given a body that is an object without
  \<^verbatim>\<open>data\<close>, logs the TypeError and leaves the display region as it was, without a notice.
\<close>

theorem tags_hides_missing_data:
  "data_array (JObj []) = None
   \<and> tags_click_handler (serving \<lparr>status = 200, body = Inr (JObj [])\<rparr>)
         (blank_page\<lparr>input_value := js ''cats''\<rparr>) =
       blank_page\<lparr>input_value := js ''cats'', requests := [tags_endpoint (js ''cats'')],
                  console := [LogError TypeError]\<rparr>
   \<and> innerHTML (tags_click_handler (serving \<lparr>status = 200, body = Inr (JObj [])\<rparr>)
         (blank_page\<lparr>input_value := js ''cats''\<rparr>)) \<noteq> error_notice"
proof -
  have run: "tags_click_handler (serving \<lparr>status = 200, body = Inr (JObj [])\<rparr>)
         (blank_page\<lparr>input_value := js ''cats''\<rparr>) =
       blank_page\<lparr>input_value := js ''cats'', requests := [tags_endpoint (js ''cats'')],
                  console := [LogError TypeError]\<rparr>"
    by (simp add: tags_click_handler_def tags_try_def tags_fetch_def tags_extract_def get_member_def
        own_prop_def trim_cats serving_def blank_page_def console_log_def Let_def)
      (simp add: js_def)
  show ?thesis
    unfolding run using error_notice_nonempty
    by (simp add: data_array_def own_prop_def blank_page_def)
qed

text \<open>
  C6. When the response is a success and the \<^verbatim>\<open>data\<close> array of its body is empty, the
  pipeline of \<^verbatim>\<open>script.js\<close> takes the success path: it logs the empty list, assigns the
  empty string to the display region and appends nothing; no error is logged and no notice
  is shown.
\<close>

theorem zero_results_empty_grid:
  assumes "fetch b url = Inr res" and "ok res" and "body res = Inr data"
    and "data_array data = Some []"
  shows "run_pipeline b url st =
           st\<lparr>requests := requests st @ [url], console := console st @ [LogImages []],
              innerHTML := [], writes := writes st @ [Assign []]\<rparr>"
proof -
  have "extract_images data = Inr []"
    using assms(4) by (simp add: extract_images_array)
  then have "fst (fetchGifs b url st) = Inr []"
    using assms(1-3) by (simp add: fetchGifs_def)
  then show ?thesis
    using run_pipeline_rendered [of b url st "[]"] by simp
qed

theorem zero_results_empty_grid_witness:
  "fetch (serving \<lparr>status = 200, body = Inr (results [])\<rparr>) default_url =
     Inr \<lparr>status = 200, body = Inr (results [])\<rparr>
   \<and> ok \<lparr>status = 200, body = Inr (results [])\<rparr>
   \<and> data_array (results []) = Some []
   \<and> run_pipeline (serving \<lparr>status = 200, body = Inr (results [])\<rparr>) default_url blank_page =
       blank_page\<lparr>requests := [default_url], console := [LogImages []],
                  innerHTML := [], writes := [Assign []]\<rparr>"
  using zero_results_empty_grid
    [of "serving \<lparr>status = 200, body = Inr (results [])\<rparr>" default_url
        "\<lparr>status = 200, body = Inr (results [])\<rparr>" "results []" blank_page]
  by (simp add: serving_def ok_def data_array_def results_def own_prop_def blank_page_def)

text \<open>
  C7. Running the pipeline of \<^verbatim>\<open>script.js\<close> a second time, on the page the first run
  left, with the same URL and the same network, leaves the same markup in the display
  region as the first run did; and that markup does not depend on the page the run started
  from, so nothing of an earlier run is kept.
\<close>

theorem second_run_replaces_first:
  "innerHTML (run_pipeline b url (run_pipeline b url st)) = innerHTML (run_pipeline b url st)
   \<and> innerHTML (run_pipeline b url st) = innerHTML (run_pipeline b url st')"
  using fetchGifs_result [of b url "run_pipeline b url st" st] fetchGifs_result [of b url st st']
  by (simp add: innerHTML_run_pipeline)

text \<open>
  C8, as amended. In \<^verbatim>\<open>script.js\<close> (and its second copy) a run in which \<^verbatim>\<open>fetchGifs\<close>
  raises makes one write, the assignment of the error notice; a run that collects N URLs,
  each of which the template can print, makes one assignment of the empty string and then
  N appends, one card per URL in order. In both cases the markup afterwards holds nothing
  of the markup before. In the third script a run whose fetch, decoding or extraction raises
  makes no write and leaves the markup as it was; a run that collects N printable URLs
  makes one assignment of the empty string and then N appends.
\<close>

theorem one_clear_per_run:
  "(fst (fetchGifs b url st) = Inl e \<longrightarrow>
      writes (run_pipeline b url st) = writes st @ [Assign error_notice]
      \<and> innerHTML (run_pipeline b url st) = error_notice)
   \<and> (fst (fetchGifs b url st) = Inr images \<and> list_all (converts b) images \<longrightarrow>
      writes (run_pipeline b url st) =
        writes st @ Assign [] # map (\<lambda>v. Append (image_card (shown b v))) images
      \<and> innerHTML (run_pipeline b url st) = concat (map (\<lambda>v. image_card (shown b v)) images))
   \<and> (trim (input_value st) \<noteq> []
       \<and> fst (tags_fetch b (tags_endpoint (trim (input_value st))) st) = Inl e \<longrightarrow>
      writes (tags_click_handler b st) = writes st
      \<and> innerHTML (tags_click_handler b st) = innerHTML st)
   \<and> (trim (input_value st) \<noteq> []
       \<and> fst (tags_fetch b (tags_endpoint (trim (input_value st))) st) = Inr images
       \<and> list_all (converts b) images \<longrightarrow>
      writes (tags_click_handler b st) =
        writes st @ Assign [] # map (\<lambda>v. Append (tags_img (shown b v))) images
      \<and> innerHTML (tags_click_handler b st) =
        concat (map (\<lambda>v. tags_img (shown b v)) images))"
proof -
  have failed: "writes (run_pipeline b url st) = writes st @ [Assign error_notice]
      \<and> innerHTML (run_pipeline b url st) = error_notice"
    if "fst (fetchGifs b url st) = Inl e"
    using run_pipeline_failed [OF that] by simp
  have rendered: "writes (run_pipeline b url st) =
        writes st @ Assign [] # map (\<lambda>v. Append (image_card (shown b v))) images
      \<and> innerHTML (run_pipeline b url st) = concat (map (\<lambda>v. image_card (shown b v)) images)"
    if "fst (fetchGifs b url st) = Inr images" and "list_all (converts b) images"
    using run_pipeline_rendered [OF that] by simp
  have tags_failed: "writes (tags_click_handler b st) = writes st
      \<and> innerHTML (tags_click_handler b st) = innerHTML st"
    if "trim (input_value st) \<noteq> []"
      and "fst (tags_fetch b (tags_endpoint (trim (input_value st))) st) = Inl e"
    using tags_click_failed [OF that] by simp
  have tags_rendered: "writes (tags_click_handler b st) =
        writes st @ Assign [] # map (\<lambda>v. Append (tags_img (shown b v))) images
      \<and> innerHTML (tags_click_handler b st) =
        concat (map (\<lambda>v. tags_img (shown b v)) images)"
    if "trim (input_value st) \<noteq> []"
      and "fst (tags_fetch b (tags_endpoint (trim (input_value st))) st) = Inr images"
      and "list_all (converts b) images"
    using tags_click_rendered [OF that] by simp
  from failed rendered tags_failed tags_rendered show ?thesis
    by blast
qed

theorem one_clear_per_run_witness:
  "fst (fetchGifs offline default_url blank_page) = Inl NetworkError
   \<and> writes (run_pipeline offline default_url blank_page) = [Assign error_notice]
   \<and> fst (fetchGifs (serving \<lparr>status = 200, body = Inr example_body\<rparr>) default_url blank_page) =
       Inr [Some (JStr (js ''https://x/1.gif''))]
   \<and> list_all (converts (serving \<lparr>status = 200, body = Inr example_body\<rparr>))
       [Some (JStr (js ''https://x/1.gif''))]
   \<and> writes (run_pipeline (serving \<lparr>status = 200, body = Inr example_body\<rparr>) default_url
       blank_page) = [Assign [], Append (image_card (js ''https://x/1.gif''))]
   \<and> trim (input_value (blank_page\<lparr>input_value := js ''cats''\<rparr>)) \<noteq> []
   \<and> fst (tags_fetch (serving \<lparr>status = 200, body = Inl SyntaxError\<rparr>)
         (tags_endpoint (trim (input_value (blank_page\<lparr>input_value := js ''cats''\<rparr>))))
         (blank_page\<lparr>input_value := js ''cats''\<rparr>)) = Inl SyntaxError
   \<and> writes (tags_click_handler (serving \<lparr>status = 200, body = Inl SyntaxError\<rparr>)
         (blank_page\<lparr>input_value := js ''cats''\<rparr>)) = []
   \<and> fst (tags_fetch
         (serving \<lparr>status = 200, body = Inr (results [gif (js ''https://x/1.gif'')])\<rparr>)
         (tags_endpoint (trim (input_value (blank_page\<lparr>input_value := js ''cats''\<rparr>))))
         (blank_page\<lparr>input_value := js ''cats''\<rparr>)) = Inr [Some (JStr (js ''https://x/1.gif''))]
   \<and> writes (tags_click_handler
         (serving \<lparr>status = 200, body = Inr (results [gif (js ''https://x/1.gif'')])\<rparr>)
         (blank_page\<lparr>input_value := js ''cats''\<rparr>)) =
       [Assign [], Append (tags_img (js ''https://x/1.gif''))]"
  using
    one_clear_per_run
      [where b = offline and url = default_url and st = blank_page and e = NetworkError]
    one_clear_per_run
      [where b = "serving \<lparr>status = 200, body = Inr example_body\<rparr>" and url = default_url
         and st = blank_page and images = "[Some (JStr (js ''https://x/1.gif''))]"]
    one_clear_per_run
      [where b = "serving \<lparr>status = 200, body = Inl SyntaxError\<rparr>"
         and st = "blank_page\<lparr>input_value := js ''cats''\<rparr>" and e = SyntaxError]
    one_clear_per_run
      [where b = "serving \<lparr>status = 200, body = Inr (results [gif (js ''https://x/1.gif'')])\<rparr>"
         and st = "blank_page\<lparr>input_value := js ''cats''\<rparr>"
         and images = "[Some (JStr (js ''https://x/1.gif''))]"]
  by (simp add: fetchGifs_offline fetchGifs_example tags_fetch_malformed tags_fetch_gif
      converts_string shown_string blank_page_fields trim_cats cats_nonempty)

text \<open>
  Against C8 as stated: the third script, on a body that fails to decode, makes no write at
  all and the earlier markup stays; and \<^verbatim>\<open>script.js\<close>, on a result whose URL is an
  object that cannot be printed, assigns to the display region twice, the empty string and
  then the error notice.
\<close>

theorem writes_other_than_one_clear:
  "tags_click_handler (serving \<lparr>status = 200, body = Inl SyntaxError\<rparr>)
       (blank_page\<lparr>input_value := js ''cats'', innerHTML := js ''old''\<rparr>) =
     blank_page\<lparr>input_value := js ''cats'', innerHTML := js ''old'',
                requests := [tags_endpoint (js ''cats'')], console := [LogError SyntaxError]\<rparr>
   \<and> writes (tags_click_handler (serving \<lparr>status = 200, body = Inl SyntaxError\<rparr>)
       (blank_page\<lparr>input_value := js ''cats'', innerHTML := js ''old''\<rparr>)) = []
   \<and> writes (run_pipeline (serving \<lparr>status = 200, body = Inr unprintable_body\<rparr>) default_url
       blank_page) = [Assign [], Assign error_notice]"
proof -
  have tags: "tags_click_handler (serving \<lparr>status = 200, body = Inl SyntaxError\<rparr>)
       (blank_page\<lparr>input_value := js ''cats'', innerHTML := js ''old''\<rparr>) =
     blank_page\<lparr>input_value := js ''cats'', innerHTML := js ''old'',
                requests := [tags_endpoint (js ''cats'')], console := [LogError SyntaxError]\<rparr>"
    using tags_click_failed
      [of "blank_page\<lparr>input_value := js ''cats'', innerHTML := js ''old''\<rparr>"
          "serving \<lparr>status = 200, body = Inl SyntaxError\<rparr>" SyntaxError]
    by (simp add: trim_cats cats_nonempty tags_fetch_malformed blank_page_fields)
  have "fetchGifs (serving \<lparr>status = 200, body = Inr unprintable_body\<rparr>) default_url blank_page =
      (Inr [Some (JObj [(js ''toString'', JNum 0)])],
       console_log (LogImages [Some (JObj [(js ''toString'', JNum 0)])])
         (blank_page\<lparr>requests := requests blank_page @ [default_url]\<rparr>))"
    using fetchGifs_unprintable [of default_url blank_page]
      fetchGifs_page [of "serving \<lparr>status = 200, body = Inr unprintable_body\<rparr>" default_url
        blank_page]
    by (simp add: prod_eq_iff)
  then have script: "writes (run_pipeline (serving \<lparr>status = 200, body = Inr unprintable_body\<rparr>)
       default_url blank_page) = [Assign [], Assign error_notice]"
    by (simp add: run_pipeline_def template_value_def show_error_def set_html_def console_log_def
        blank_page_fields)
  show ?thesis
    unfolding tags using script by (simp add: blank_page_fields)
qed

text \<open>
  C9, as amended. In \<^verbatim>\<open>script.js\<close> (and its second copy) any two runs in which
  \<^verbatim>\<open>fetchGifs\<close> raises, whatever the errors, leave the same markup, the error notice,
  and show no alert; the error itself goes to the console only. In the third script a run
  whose fetch, decoding or extraction raises shows the user nothing: markup, writes and
  alerts stay as they were, whatever the error, which goes to the console only.
\<close>

theorem failures_show_one_notice:
  "(fst (fetchGifs b1 url1 st1) = Inl e1 \<and> fst (fetchGifs b2 url2 st2) = Inl e2 \<longrightarrow>
      innerHTML (run_pipeline b1 url1 st1) = innerHTML (run_pipeline b2 url2 st2)
      \<and> innerHTML (run_pipeline b1 url1 st1) = error_notice
      \<and> alerts (run_pipeline b1 url1 st1) = alerts st1
      \<and> console (run_pipeline b1 url1 st1) = console st1 @ [LogError e1])
   \<and> (trim (input_value st) \<noteq> []
       \<and> fst (tags_fetch b (tags_endpoint (trim (input_value st))) st) = Inl e \<longrightarrow>
      innerHTML (tags_click_handler b st) = innerHTML st
      \<and> writes (tags_click_handler b st) = writes st
      \<and> alerts (tags_click_handler b st) = alerts st
      \<and> console (tags_click_handler b st) = console st @ [LogError e])"
proof -
  have script: "innerHTML (run_pipeline b1 url1 st1) = innerHTML (run_pipeline b2 url2 st2)
      \<and> innerHTML (run_pipeline b1 url1 st1) = error_notice
      \<and> alerts (run_pipeline b1 url1 st1) = alerts st1
      \<and> console (run_pipeline b1 url1 st1) = console st1 @ [LogError e1]"
    if "fst (fetchGifs b1 url1 st1) = Inl e1" and "fst (fetchGifs b2 url2 st2) = Inl e2"
    using run_pipeline_failed [OF that(1)] run_pipeline_failed [OF that(2)] by simp
  have tags: "innerHTML (tags_click_handler b st) = innerHTML st
      \<and> writes (tags_click_handler b st) = writes st
      \<and> alerts (tags_click_handler b st) = alerts st
      \<and> console (tags_click_handler b st) = console st @ [LogError e]"
    if "trim (input_value st) \<noteq> []"
      and "fst (tags_fetch b (tags_endpoint (trim (input_value st))) st) = Inl e"
    using tags_click_failed [OF that] by simp
  from script tags show ?thesis
    by blast
qed

theorem failures_show_one_notice_witness:
  "fst (fetchGifs offline default_url blank_page) = Inl NetworkError
   \<and> fst (fetchGifs (serving \<lparr>status = 500, body = Inr (results [])\<rparr>) default_url blank_page) =
       Inl (Error (js ''HTTP 500''))
   \<and> innerHTML (run_pipeline offline default_url blank_page) =
       innerHTML (run_pipeline (serving \<lparr>status = 500, body = Inr (results [])\<rparr>) default_url
         blank_page)
   \<and> console (run_pipeline offline default_url blank_page) = [LogError NetworkError]
   \<and> fst (fetchGifs (serving \<lparr>status = 200, body = Inl SyntaxError\<rparr>) default_url
         blank_page) = Inl SyntaxError
   \<and> innerHTML (run_pipeline (serving \<lparr>status = 200, body = Inl SyntaxError\<rparr>) default_url
         blank_page) =
       innerHTML (run_pipeline offline default_url blank_page)
   \<and> console (run_pipeline (serving \<lparr>status = 200, body = Inl SyntaxError\<rparr>) default_url
         blank_page) = [LogError SyntaxError]
   \<and> trim (input_value (blank_page\<lparr>input_value := js ''cats''\<rparr>)) \<noteq> []
   \<and> fst (tags_fetch (serving \<lparr>status = 200, body = Inl SyntaxError\<rparr>)
         (tags_endpoint (trim (input_value (blank_page\<lparr>input_value := js ''cats''\<rparr>))))
         (blank_page\<lparr>input_value := js ''cats''\<rparr>)) = Inl SyntaxError
   \<and> console (tags_click_handler (serving \<lparr>status = 200, body = Inl SyntaxError\<rparr>)
         (blank_page\<lparr>input_value := js ''cats''\<rparr>)) = [LogError SyntaxError]
   \<and> innerHTML (tags_click_handler (serving \<lparr>status = 200, body = Inl SyntaxError\<rparr>)
         (blank_page\<lparr>input_value := js ''cats''\<rparr>)) = []"
  using
    failures_show_one_notice
      [where ?b1.0 = offline and ?url1.0 = default_url and ?st1.0 = blank_page
         and ?e1.0 = NetworkError
         and ?b2.0 = "serving \<lparr>status = 500, body = Inr (results [])\<rparr>"
         and ?url2.0 = default_url and ?st2.0 = blank_page and ?e2.0 = "Error (js ''HTTP 500'')"
         and b = "serving \<lparr>status = 200, body = Inl SyntaxError\<rparr>"
         and st = "blank_page\<lparr>input_value := js ''cats''\<rparr>" and e = SyntaxError]
    failures_show_one_notice
      [where ?b1.0 = "serving \<lparr>status = 200, body = Inl SyntaxError\<rparr>"
         and ?url1.0 = default_url and ?st1.0 = blank_page and ?e1.0 = SyntaxError
         and ?b2.0 = offline and ?url2.0 = default_url and ?st2.0 = blank_page
         and ?e2.0 = NetworkError]
  by (simp add: fetchGifs_offline fetchGifs_500 fetchGifs_malformed tags_fetch_malformed
      blank_page_fields trim_cats cats_nonempty)

text \<open>
  Against C9 as stated: a failing run of the third script, here with the network down,
  shows no error notice; the display region stays empty.
\<close>

theorem tags_shows_no_notice:
  "tags_click_handler offline (blank_page\<lparr>input_value := js ''cats''\<rparr>) =
     blank_page\<lparr>input_value := js ''cats'', requests := [tags_endpoint (js ''cats'')],
                console := [LogError NetworkError]\<rparr>
   \<and> innerHTML (tags_click_handler offline (blank_page\<lparr>input_value := js ''cats''\<rparr>)) \<noteq>
       error_notice"
proof -
  have run: "tags_click_handler offline (blank_page\<lparr>input_value := js ''cats''\<rparr>) =
     blank_page\<lparr>input_value := js ''cats'', requests := [tags_endpoint (js ''cats'')],
                console := [LogError NetworkError]\<rparr>"
    by (simp add: tags_click_handler_def tags_try_def tags_fetch_def trim_cats offline_def
        blank_page_def console_log_def Let_def)
      (simp add: js_def)
  show ?thesis
    unfolding run using error_notice_nonempty by (simp add: blank_page_def)
qed

text \<open>
  C10. In \<^verbatim>\<open>script.js\<close> (and its second copy) a click with an empty input and a click
  with the input \<^verbatim>\<open>cats\<close> build the same URL: the constant \<^verbatim>\<open>endpoint\<close> is the URL
  that the builder of the handler produces for \<^verbatim>\<open>cats\<close>, character for character.
\<close>

theorem default_endpoint_is_cats_url:
  "choose_url (trim []) = choose_url (trim (js ''cats''))
   \<and> endpoint = search_url (js ''cats'')
   \<and> choose_url (trim []) = Inr default_url"
proof -
  have e: "endpoint = search_url (js ''cats'')"
    by (simp add: endpoint_def DEFAULT_QUERY_def)
  have "choose_url (trim []) = endpoint"
    by (simp add: choose_url_def trim_def)
  moreover have "choose_url (trim (js ''cats'')) = search_url (js ''cats'')"
    by (simp add: choose_url_def trim_cats) (simp add: js_def)
  ultimately show ?thesis
    using e endpoint_text by simp
qed

end
